theory Spec2Isabelle
  imports Complex_Main
begin

section \<open>Values of the data frame\<close>

text \<open>
  The converter \<^verbatim>\<open>csv_to_sqlite\<close> is one Python function over two libraries: pandas
  (the frame read from the CSV file and the column conversions) and sqlite3 (the
  destination table). The functions below follow the source line by line; what a
  library call does to a column is written out as a function on the column.

  A cell of the frame is what \<^verbatim>\<open>pd.read_csv\<close> leaves in it: the missing marker
  (an empty field or one of the NA spellings), a text, a 64-bit integer or a 64-bit
  float. A finite float is the rational number it denotes; the converter never computes
  with floats, it only truncates and stores them.
\<close>

datatype float64 = Finite rat | PosInf | NegInf

datatype cell = NaN | Str string | IntV int | FloatV float64

type_synonym series = "cell list"

type_synonym dataframe = "(string \<times> series) list"

datatype exn =
    FileNotFoundError
  | ReadError string
  | KeyError string
  | ValueError string
  | IntCastingNaNError
  | OperationalError string
  | DatabaseError string

text \<open>
  What the libraries decide and the source does not: how \<^verbatim>\<open>pd.to_numeric\<close> reads a
  text as a number, how Python prints a float, and which texts SQLite takes as the bare
  name of a table when they are spliced into a statement. The model takes the three as
  parameters.
\<close>

datatype number = Int64 int | Float64 float64

record libs =
  str_to_number :: "string \<Rightarrow> number option"
  float_repr :: "float64 \<Rightarrow> string"
  sql_identifier :: "string \<Rightarrow> bool"

section \<open>Dates: \<^verbatim>\<open>pd.to_datetime(..., format='%m/%d/%Y', errors='coerce')\<close>\<close>

text \<open>
  With an explicit format pandas matches every text against the regular expression
  that the standard library's \<^verbatim>\<open>_strptime.TimeRE\<close> builds for the format:
  \<^verbatim>\<open>%m\<close> is \<^verbatim>\<open>1[0-2]|0[1-9]|[1-9]\<close>,
  \<^verbatim>\<open>%d\<close> is \<^verbatim>\<open>3[0-1]|[1-2]\d|0[1-9]|[1-9]| [1-9]\<close>,
  \<^verbatim>\<open>%Y\<close> is \<^verbatim>\<open>\d\d\d\d\<close>.
  Each group below returns its alternatives in the order in which the backtracking
  matcher tries them, as pairs of the matched text and the text that is left.
\<close>

definition is_digit :: "char \<Rightarrow> bool" where
  "is_digit c = (48 \<le> (of_char c :: nat) \<and> (of_char c :: nat) \<le> 57)"

definition digit_val :: "char \<Rightarrow> nat" where
  "digit_val c = (of_char c :: nat) - 48"

definition digit_char :: "nat \<Rightarrow> char" where
  "digit_char n = ''0123456789'' ! (n mod 10)"

definition in_range :: "char \<Rightarrow> nat \<Rightarrow> nat \<Rightarrow> bool" where
  "in_range c lo hi = (is_digit c \<and> lo \<le> digit_val c \<and> digit_val c \<le> hi)"

fun re_m :: "string \<Rightarrow> (string \<times> string) list" where
  "re_m (a # b # r) =
     (if a = CHR ''1'' \<and> in_range b 0 2 then [([a, b], r)] else []) @
     (if a = CHR ''0'' \<and> in_range b 1 9 then [([a, b], r)] else []) @
     (if in_range a 1 9 then [([a], b # r)] else [])"
| "re_m [a] = (if in_range a 1 9 then [([a], [])] else [])"
| "re_m [] = []"

fun re_d :: "string \<Rightarrow> (string \<times> string) list" where
  "re_d (a # b # r) =
     (if a = CHR ''3'' \<and> in_range b 0 1 then [([a, b], r)] else []) @
     (if in_range a 1 2 \<and> is_digit b then [([a, b], r)] else []) @
     (if a = CHR ''0'' \<and> in_range b 1 9 then [([a, b], r)] else []) @
     (if in_range a 1 9 then [([a], b # r)] else []) @
     (if a = CHR '' '' \<and> in_range b 1 9 then [([a, b], r)] else [])"
| "re_d [a] = (if in_range a 1 9 then [([a], [])] else [])"
| "re_d [] = []"

fun re_Y :: "string \<Rightarrow> (string \<times> string) list" where
  "re_Y (a # b # c # d # r) =
     (if is_digit a \<and> is_digit b \<and> is_digit c \<and> is_digit d then [([a, b, c, d], r)] else [])"
| "re_Y _ = []"

fun re_slash :: "string \<Rightarrow> string list" where
  "re_slash (a # r) = (if a = CHR ''/'' then [r] else [])"
| "re_slash [] = []"

definition format_regex_match :: "string \<Rightarrow> (string \<times> string \<times> string \<times> string) option" where
  \<comment> \<open>\<^verbatim>\<open>format_regex.match(val)\<close>: the first match of \<^verbatim>\<open>%m/%d/%Y\<close> at the start of
     the text, with the text after the match\<close>
  "format_regex_match s =
     (case concat (map (\<lambda>(m, r1). concat (map (\<lambda>r2. concat (map (\<lambda>(d, r3).
             concat (map (\<lambda>r4. map (\<lambda>(y, r5). (m, d, y, r5)) (re_Y r4)) (re_slash r3)))
           (re_d r2))) (re_slash r1))) (re_m s)) of
        [] \<Rightarrow> None
      | x # _ \<Rightarrow> Some x)"

text \<open>
  \<^verbatim>\<open>int(found_dict['d'])\<close> and the like: Python's \<^verbatim>\<open>int\<close> skips the blank of a
  blank-padded day.
\<close>

fun py_int :: "string \<Rightarrow> nat" where
  "py_int s = foldl (\<lambda>n c. 10 * n + digit_val c) 0 (filter is_digit s)"

definition is_leap :: "nat \<Rightarrow> bool" where
  "is_leap y = (if y mod 100 = 0 then y mod 400 = 0 else y mod 4 = 0)"

definition days_in_month :: "nat \<Rightarrow> nat \<Rightarrow> nat" where
  "days_in_month y m =
     (if m = 2 then (if is_leap y then 29 else 28)
      else if m = 4 \<or> m = 6 \<or> m = 9 \<or> m = 11 then 30 else 31)"

definition date_ok :: "nat \<Rightarrow> nat \<Rightarrow> nat \<Rightarrow> bool" where
  \<comment> \<open>\<^verbatim>\<open>datetime.date(year, month, day)\<close> raises ValueError outside these bounds\<close>
  "date_ok y m d = (1 \<le> y \<and> y \<le> 9999 \<and> 1 \<le> m \<and> m \<le> 12 \<and> 1 \<le> d \<and> d \<le> days_in_month y m)"

definition in_ns_bounds :: "nat \<Rightarrow> nat \<Rightarrow> nat \<Rightarrow> bool" where
  \<comment> \<open>a \<^verbatim>\<open>datetime64[ns]\<close> holds midnights from 1677-09-22 to 2262-04-11; outside,
     the conversion raises OutOfBoundsDatetime\<close>
  "in_ns_bounds y m d =
     ((1677 < y \<or> (y = 1677 \<and> (9 < m \<or> (m = 9 \<and> 22 \<le> d)))) \<and>
      (y < 2262 \<or> (y = 2262 \<and> (m < 4 \<or> (m = 4 \<and> d \<le> 11)))))"

definition nat_strings :: "string list" where
  "nat_strings = [''NaT'', ''nat'', ''NAT'', ''nan'', ''NaN'', ''NAN'']"

definition array_strptime :: "string \<Rightarrow> (nat \<times> nat \<times> nat) option" where
  \<comment> \<open>one text under \<^verbatim>\<open>errors='coerce'\<close>: every ValueError becomes NaT, here None\<close>
  "array_strptime val =
     (if val = [] \<or> val \<in> set nat_strings then None
      else case format_regex_match val of
        None \<Rightarrow> None
      | Some (m, d, y, rest) \<Rightarrow>
          if rest \<noteq> [] then None
          else let year = py_int y; month = py_int m; day = py_int d in
            if date_ok year month day \<and> in_ns_bounds year month day
            then Some (year, month, day) else None)"

fun to_datetime :: "cell \<Rightarrow> (nat \<times> nat \<times> nat) option" where
  \<comment> \<open>a number is turned into its decimal text first, which has no \<^verbatim>\<open>/\<close> and never
     matches; the missing marker gives NaT\<close>
  "to_datetime (Str s) = array_strptime s"
| "to_datetime _ = None"

definition pad2 :: "nat \<Rightarrow> string" where
  "pad2 n = [digit_char (n div 10 mod 10), digit_char (n mod 10)]"

definition pad4 :: "nat \<Rightarrow> string" where
  "pad4 n = [digit_char (n div 1000 mod 10), digit_char (n div 100 mod 10),
             digit_char (n div 10 mod 10), digit_char (n mod 10)]"

definition strftime :: "(nat \<times> nat \<times> nat) option \<Rightarrow> cell" where
  \<comment> \<open>\<^verbatim>\<open>.dt.strftime('%Y-%m-%d')\<close>; NaT becomes the missing marker\<close>
  "strftime t = (case t of None \<Rightarrow> NaN | Some (y, m, d) \<Rightarrow> Str (pad4 y @ ''-'' @ pad2 m @ ''-'' @ pad2 d))"

definition fillna :: "cell \<Rightarrow> series \<Rightarrow> series" where
  "fillna v xs = map (\<lambda>c. if c = NaN then v else c) xs"

definition to_datetime_strftime :: "series \<Rightarrow> series" where
  \<comment> \<open>the right-hand side of lines 23 and 24\<close>
  "to_datetime_strftime xs = map (\<lambda>c. strftime (to_datetime c)) xs"

section \<open>Numbers: \<^verbatim>\<open>pd.to_numeric(..., errors='coerce')\<close>, \<^verbatim>\<open>fillna\<close>, \<^verbatim>\<open>astype(int)\<close>\<close>

text \<open>
  The conversion of a 64-bit integer to a float rounds to 53 significant bits, ties to
  even.
\<close>

fun bitlen :: "nat \<Rightarrow> nat" where
  "bitlen n = (if n = 0 then 0 else Suc (bitlen (n div 2)))"

definition round53 :: "nat \<Rightarrow> nat" where
  "round53 n =
     (let e = bitlen n - 53; q = n div 2 ^ e; r = n mod 2 ^ e in
      if e = 0 then n
      else if 2 ^ e < 2 * r \<or> (2 * r = 2 ^ e \<and> odd q) then (q + 1) * 2 ^ e
      else q * 2 ^ e)"

definition float_of_int :: "int \<Rightarrow> float64" where
  "float_of_int n = Finite (of_int (sgn n * int (round53 (nat \<bar>n\<bar>))))"

fun to_numeric_cell :: "libs \<Rightarrow> cell \<Rightarrow> cell" where
  "to_numeric_cell L NaN = NaN"
| "to_numeric_cell L (IntV n) = IntV n"
| "to_numeric_cell L (FloatV x) = FloatV x"
| "to_numeric_cell L (Str s) =
     (case str_to_number L s of
        None \<Rightarrow> NaN
      | Some (Int64 n) \<Rightarrow> IntV n
      | Some (Float64 x) \<Rightarrow> FloatV x)"

fun is_int :: "cell \<Rightarrow> bool" where
  "is_int (IntV n) = True"
| "is_int _ = False"

fun upcast :: "cell \<Rightarrow> cell" where
  "upcast (IntV n) = FloatV (float_of_int n)"
| "upcast c = c"

definition to_numeric :: "libs \<Rightarrow> series \<Rightarrow> series" where
  \<comment> \<open>the result is an int64 series when every element is an integer, and a float64
     series otherwise, in which the integers are floats\<close>
  "to_numeric L xs =
     (let ys = map (to_numeric_cell L) xs
      in if list_all is_int ys then ys else map upcast ys)"

definition trunc :: "rat \<Rightarrow> int" where
  "trunc q = (if 0 \<le> q then \<lfloor>q\<rfloor> else \<lceil>q\<rceil>)"

definition int64_min :: int where
  "int64_min = - (2 ^ 63)"

definition in_int64 :: "int \<Rightarrow> bool" where
  "in_int64 n = (int64_min \<le> n \<and> n < 2 ^ 63)"

fun astype_int_cell :: "cell \<Rightarrow> exn + cell" where
  \<comment> \<open>a finite float is cut towards zero by the C conversion; outside int64 that
     conversion is undefined and NumPy on x86-64 returns the least int64\<close>
  "astype_int_cell (IntV n) = Inr (IntV n)"
| "astype_int_cell (FloatV (Finite q)) = Inr (IntV (if in_int64 (trunc q) then trunc q else int64_min))"
| "astype_int_cell (FloatV _) = Inl IntCastingNaNError"
| "astype_int_cell NaN = Inl IntCastingNaNError"
| "astype_int_cell (Str s) = Inl (ValueError s)"

fun astype_int :: "series \<Rightarrow> exn + series" where
  "astype_int [] = Inr []"
| "astype_int (c # cs) =
     (case astype_int_cell c of
        Inl e \<Rightarrow> Inl e
      | Inr v \<Rightarrow> (case astype_int cs of Inl e \<Rightarrow> Inl e | Inr vs \<Rightarrow> Inr (v # vs)))"

definition float_column :: "libs \<Rightarrow> series \<Rightarrow> series" where
  \<comment> \<open>\<^verbatim>\<open>pd.to_numeric(col, errors='coerce').fillna(0.0)\<close>\<close>
  "float_column L xs = fillna (FloatV (Finite 0)) (to_numeric L xs)"

definition int_column :: "libs \<Rightarrow> series \<Rightarrow> exn + series" where
  \<comment> \<open>\<^verbatim>\<open>pd.to_numeric(col, errors='coerce').fillna(0).astype(int)\<close>; only a float64
     series has a missing element, and there the fill value is the float 0.0\<close>
  "int_column L xs = astype_int (fillna (FloatV (Finite 0)) (to_numeric L xs))"

section \<open>Texts: \<^verbatim>\<open>fillna('').astype(str)\<close>\<close>

fun str_nat :: "nat \<Rightarrow> string" where
  "str_nat n = (if n < 10 then [digit_char n] else str_nat (n div 10) @ [digit_char (n mod 10)])"

definition str_int :: "int \<Rightarrow> string" where
  "str_int n = (if n < 0 then CHR ''-'' # str_nat (nat (- n)) else str_nat (nat n))"

fun py_str :: "libs \<Rightarrow> cell \<Rightarrow> string" where
  "py_str L (Str s) = s"
| "py_str L (IntV n) = str_int n"
| "py_str L (FloatV x) = float_repr L x"
| "py_str L NaN = ''nan''"

definition astype_str :: "libs \<Rightarrow> series \<Rightarrow> series" where
  "astype_str L xs = map (\<lambda>c. Str (py_str L c)) xs"

definition text_column :: "libs \<Rightarrow> series \<Rightarrow> series" where
  "text_column L xs = astype_str L (fillna (Str []) xs)"

section \<open>The frame\<close>

definition getitem :: "dataframe \<Rightarrow> string \<Rightarrow> exn + series" where
  \<comment> \<open>\<^verbatim>\<open>df[c]\<close> raises KeyError when the frame has no such column\<close>
  "getitem df c = (case map_of df c of None \<Rightarrow> Inl (KeyError c) | Some xs \<Rightarrow> Inr xs)"

fun setitem :: "dataframe \<Rightarrow> string \<Rightarrow> series \<Rightarrow> dataframe" where
  \<comment> \<open>\<^verbatim>\<open>df[c] = xs\<close> replaces the column where it stands, or adds it at the end\<close>
  "setitem [] c xs = [(c, xs)]"
| "setitem ((k, v) # df) c xs = (if k = c then (k, xs) # df else (k, v) # setitem df c xs)"

definition columns :: "dataframe \<Rightarrow> string list" where
  "columns df = map fst df"

definition len :: "dataframe \<Rightarrow> nat" where
  "len df = (case df of [] \<Rightarrow> 0 | (k, v) # _ \<Rightarrow> length v)"

definition assign :: "dataframe \<Rightarrow> string \<Rightarrow> (series \<Rightarrow> exn + series) \<Rightarrow> exn + dataframe" where
  \<comment> \<open>\<^verbatim>\<open>df[c] = f(df[c])\<close>\<close>
  "assign df c f =
     (case getitem df c of
        Inl e \<Rightarrow> Inl e
      | Inr xs \<Rightarrow> (case f xs of Inl e \<Rightarrow> Inl e | Inr ys \<Rightarrow> Inr (setitem df c ys)))"

fun getitems :: "dataframe \<Rightarrow> string list \<Rightarrow> exn + dataframe" where
  \<comment> \<open>\<^verbatim>\<open>df[cs]\<close> for a list of names: the sub-frame of these columns\<close>
  "getitems df [] = Inr []"
| "getitems df (c # cs) =
     (case getitem df c of
        Inl e \<Rightarrow> Inl e
      | Inr xs \<Rightarrow> (case getitems df cs of Inl e \<Rightarrow> Inl e | Inr rest \<Rightarrow> Inr ((c, xs) # rest)))"

fun setitems :: "dataframe \<Rightarrow> dataframe \<Rightarrow> dataframe" where
  \<comment> \<open>\<^verbatim>\<open>df[cs] = sub\<close>\<close>
  "setitems df [] = df"
| "setitems df ((c, xs) # sub) = setitems (setitem df c xs) sub"

definition text_columns :: "string list" where
  "text_columns = [''order_id'', ''ship_mode'', ''customer_name'', ''segment'', ''state'',
                   ''country'', ''market'', ''region'', ''product_id'', ''category'',
                   ''sub_category'', ''product_name'', ''order_priority'']"

definition then_do :: "exn + 'a \<Rightarrow> ('a \<Rightarrow> exn + 'b) \<Rightarrow> exn + 'b" where
  "then_do r f = (case r of Inl e \<Rightarrow> Inl e | Inr x \<Rightarrow> f x)"

definition preprocess :: "libs \<Rightarrow> dataframe \<Rightarrow> exn + dataframe" where
  \<comment> \<open>lines 23 to 42, one statement of the source after the other\<close>
  "preprocess L df =
     then_do (assign df ''order_date'' (\<lambda>xs. Inr (to_datetime_strftime xs))) (\<lambda>df.
     then_do (assign df ''ship_date'' (\<lambda>xs. Inr (to_datetime_strftime xs))) (\<lambda>df.
     then_do (assign df ''order_date'' (\<lambda>xs. Inr (fillna (Str ''1900-01-01'') xs))) (\<lambda>df.
     then_do (assign df ''ship_date'' (\<lambda>xs. Inr (fillna (Str ''1900-01-01'') xs))) (\<lambda>df.
     then_do (assign df ''sales'' (\<lambda>xs. Inr (float_column L xs))) (\<lambda>df.
     then_do (assign df ''quantity'' (int_column L)) (\<lambda>df.
     then_do (assign df ''discount'' (\<lambda>xs. Inr (float_column L xs))) (\<lambda>df.
     then_do (assign df ''profit'' (\<lambda>xs. Inr (float_column L xs))) (\<lambda>df.
     then_do (assign df ''shipping_cost'' (\<lambda>xs. Inr (float_column L xs))) (\<lambda>df.
     then_do (assign df ''year'' (int_column L)) (\<lambda>df.
     then_do (getitems df text_columns) (\<lambda>sub.
     Inr (setitems df (map (\<lambda>(c, xs). (c, text_column L xs)) sub)))))))))))))"

section \<open>The files and the destination database\<close>

text \<open>
  A table is its declared columns, each with the affinity of its declared type, and
  the rows in the order of insertion. A row holds, column by column, the value that was
  bound to the \<^verbatim>\<open>INSERT\<close> statement; the missing marker is bound as \<^verbatim>\<open>NULL\<close>.
\<close>

datatype affinity = TEXT | INTEGER | REAL | NUMERIC | BLOB

record table =
  schema :: "(string \<times> affinity) list"
  rows :: "cell list list"

type_synonym database = "(string \<times> table) list"

datatype db_file = Absent | Unopenable | Corrupt | Database database

datatype csv_source = NoFile | Unreadable string | Csv dataframe

datatype message =
    Reading string
  | Loaded nat "string list"
  | Connecting string
  | Creating string
  | Writing string
  | Verifying
  | Inserted nat string
  | Created string
  | NotFound string
  | Failed exn

text \<open>
  The world of one call: what \<^verbatim>\<open>pd.read_csv\<close> finds at a path (nothing, something it
  cannot read, or a frame), what is at the path of a database, the connections that are
  open, and the lines printed so far.
\<close>

record world =
  files :: "string \<Rightarrow> csv_source"
  dbs :: "string \<Rightarrow> db_file"
  open_connections :: "string list"
  stdout :: "message list"

definition print :: "message \<Rightarrow> world \<Rightarrow> world" where
  "print m w = w\<lparr>stdout := stdout w @ [m]\<rparr>"

definition read_csv :: "world \<Rightarrow> string \<Rightarrow> exn + dataframe" where
  "read_csv w p =
     (case files w p of
        NoFile \<Rightarrow> Inl FileNotFoundError
      | Unreadable msg \<Rightarrow> Inl (ReadError msg)
      | Csv df \<Rightarrow> Inr df)"

definition connect :: "world \<Rightarrow> string \<Rightarrow> exn + world" where
  \<comment> \<open>\<^verbatim>\<open>sqlite3.connect\<close> creates an empty database where there is no file\<close>
  "connect w p =
     (case dbs w p of
        Unopenable \<Rightarrow> Inl (OperationalError ''unable to open database file'')
      | Absent \<Rightarrow> Inr (w\<lparr>dbs := (dbs w)(p := Database []),
                          open_connections := p # open_connections w\<rparr>)
      | _ \<Rightarrow> Inr (w\<lparr>open_connections := p # open_connections w\<rparr>))"

definition close :: "world \<Rightarrow> string \<Rightarrow> world" where
  "close w p = w\<lparr>open_connections := remove1 p (open_connections w)\<rparr>"

definition orders_schema :: "(string \<times> affinity) list" where
  "orders_schema =
     [(''order_id'', TEXT), (''order_date'', TEXT), (''ship_date'', TEXT),
      (''ship_mode'', TEXT), (''customer_name'', TEXT), (''segment'', TEXT),
      (''state'', TEXT), (''country'', TEXT), (''market'', TEXT), (''region'', TEXT),
      (''product_id'', TEXT), (''category'', TEXT), (''sub_category'', TEXT),
      (''product_name'', TEXT), (''sales'', REAL), (''quantity'', INTEGER),
      (''discount'', REAL), (''profit'', REAL), (''shipping_cost'', REAL),
      (''order_priority'', TEXT), (''year'', INTEGER)]"

fun put_table :: "database \<Rightarrow> string \<Rightarrow> table \<Rightarrow> database" where
  "put_table [] n t = [(n, t)]"
| "put_table ((k, v) # db) n t = (if k = n then (k, t) # db else (k, v) # put_table db n t)"

definition create_table_if_not_exists :: "libs \<Rightarrow> world \<Rightarrow> string \<Rightarrow> string \<Rightarrow> exn + world" where
  \<comment> \<open>lines 51 to 76: the name is spliced into the statement as it is; the statement
     and the commit after it leave an existing table alone\<close>
  "create_table_if_not_exists L w p table_name =
     (case dbs w p of
        Database db \<Rightarrow>
          if \<not> sql_identifier L table_name then Inl (OperationalError ''syntax error'')
          else (case map_of db table_name of
                  Some t \<Rightarrow> Inr w
                | None \<Rightarrow> Inr (w\<lparr>dbs := (dbs w)(p := Database
                            (put_table db table_name \<lparr>schema = orders_schema, rows = []\<rparr>))\<rparr>))
      | _ \<Rightarrow> Inl (DatabaseError ''file is not a database''))"

definition frame_cell :: "dataframe \<Rightarrow> string \<Rightarrow> nat \<Rightarrow> cell" where
  \<comment> \<open>the value bound for a column in the row of index \<open>i\<close>; a column of the table
     that the frame does not have gets \<^verbatim>\<open>NULL\<close>\<close>
  "frame_cell df c i =
     (case map_of df c of
        None \<Rightarrow> NaN
      | Some xs \<Rightarrow> if i < length xs then xs ! i else NaN)"

definition frame_row :: "dataframe \<Rightarrow> string list \<Rightarrow> nat \<Rightarrow> cell list" where
  "frame_row df cols i = map (\<lambda>c. frame_cell df c i) cols"

definition frame_rows :: "dataframe \<Rightarrow> string list \<Rightarrow> cell list list" where
  \<comment> \<open>the rows of the frame from the first to the last, laid out in the columns of
     the table\<close>
  "frame_rows df cols = map (frame_row df cols) [0..<len df]"

definition to_sql :: "world \<Rightarrow> string \<Rightarrow> string \<Rightarrow> dataframe \<Rightarrow> exn + world" where
  \<comment> \<open>line 80, \<^verbatim>\<open>if_exists='append', index=False\<close>, on a table that exists: a frame
     without rows inserts nothing; otherwise one \<^verbatim>\<open>INSERT\<close> names the columns of
     the frame, all rows go in within one transaction, and a failure rolls it back\<close>
  "to_sql w p table_name df =
     (case dbs w p of
        Database db \<Rightarrow>
          (case map_of db table_name of
             None \<Rightarrow> Inl (DatabaseError ''no such table'')
           | Some t \<Rightarrow>
               if len df = 0 then Inr w
               else (case filter (\<lambda>c. c \<notin> set (map fst (schema t))) (columns df) of
                       c # _ \<Rightarrow> Inl (OperationalError c)
                     | [] \<Rightarrow> Inr (w\<lparr>dbs := (dbs w)(p := Database
                                (put_table db table_name
                                   (t\<lparr>rows := rows t @ frame_rows df (map fst (schema t))\<rparr>)))\<rparr>)))
      | _ \<Rightarrow> Inl (DatabaseError ''file is not a database''))"

definition select_count :: "libs \<Rightarrow> world \<Rightarrow> string \<Rightarrow> string \<Rightarrow> exn + nat" where
  \<comment> \<open>lines 84 and 85\<close>
  "select_count L w p table_name =
     (case dbs w p of
        Database db \<Rightarrow>
          if \<not> sql_identifier L table_name then Inl (OperationalError ''syntax error'')
          else (case map_of db table_name of
                  None \<Rightarrow> Inl (OperationalError ''no such table'')
                | Some t \<Rightarrow> Inr (length (rows t)))
      | _ \<Rightarrow> Inl (DatabaseError ''file is not a database''))"

section \<open>The converter\<close>

definition or_raise :: "exn + 'a \<Rightarrow> world \<Rightarrow> ('a \<Rightarrow> exn option \<times> world) \<Rightarrow> exn option \<times> world" where
  \<comment> \<open>a statement of the block: either it raises, and the block is left in the world
     as it is, or the block goes on with its result\<close>
  "or_raise r w k = (case r of Inl e \<Rightarrow> (Some e, w) | Inr x \<Rightarrow> k x)"

definition try_block :: "libs \<Rightarrow> string \<Rightarrow> string \<Rightarrow> string \<Rightarrow> world \<Rightarrow> exn option \<times> world" where
  \<comment> \<open>lines 16 to 91: the exception that leaves the block, if one does, and the world
     at that moment\<close>
  "try_block L csv_file db_file table_name w =
     (let w = print (Reading csv_file) w in
      or_raise (read_csv w csv_file) w (\<lambda>df.
      let w = print (Loaded (len df) (columns df)) w in
      or_raise (preprocess L df) w (\<lambda>df.
      let w = print (Connecting db_file) w in
      or_raise (connect w db_file) w (\<lambda>w.
      let w = print (Creating table_name) w in
      or_raise (create_table_if_not_exists L w db_file table_name) w (\<lambda>w.
      let w = print (Writing table_name) w in
      or_raise (to_sql w db_file table_name df) w (\<lambda>w.
      let w = print Verifying w in
      or_raise (select_count L w db_file table_name) w (\<lambda>row_count.
      let w = print (Inserted row_count table_name) w;
          w = close w db_file;
          w = print (Created db_file) w
      in (None, w))))))))"

fun is_Exception :: "exn \<Rightarrow> bool" where
  \<comment> \<open>OSError, LookupError, ValueError and sqlite3.Error all derive from Exception\<close>
  "is_Exception FileNotFoundError = True"
| "is_Exception (ReadError msg) = True"
| "is_Exception (KeyError c) = True"
| "is_Exception (ValueError msg) = True"
| "is_Exception IntCastingNaNError = True"
| "is_Exception (OperationalError msg) = True"
| "is_Exception (DatabaseError msg) = True"

datatype outcome = Completed | Reported exn | Propagated exn

definition csv_to_sqlite :: "libs \<Rightarrow> string \<Rightarrow> string \<Rightarrow> string \<Rightarrow> world \<Rightarrow> outcome \<times> world" where
  \<comment> \<open>the whole function: the block and its two handlers, lines 93 to 96\<close>
  "csv_to_sqlite L csv_file db_file table_name w =
     (case try_block L csv_file db_file table_name w of
        (None, w) \<Rightarrow> (Completed, w)
      | (Some e, w) \<Rightarrow>
          if e = FileNotFoundError then (Reported e, print (NotFound csv_file) w)
          else if is_Exception e then (Reported e, print (Failed e) w)
          else (Propagated e, w))"

section \<open>Reading the result of a call\<close>

definition table_of :: "world \<Rightarrow> string \<Rightarrow> string \<Rightarrow> table option" where
  \<comment> \<open>the table of that name in the database at that path, if there is one\<close>
  "table_of w p table_name =
     (case dbs w p of Database db \<Rightarrow> map_of db table_name | _ \<Rightarrow> None)"



section \<open>What a column of the table stores\<close>

text \<open>
  SQLite stores a bound value under the affinity of the column: a text in a
  \<^verbatim>\<open>TEXT\<close> column stays a text and an integer becomes its decimal text, an integer in
  a \<^verbatim>\<open>REAL\<close> column becomes a float, \<^verbatim>\<open>NULL\<close> stays \<^verbatim>\<open>NULL\<close>. The conversions
  that depend on how SQLite reads a text as a number or prints a float are left open.
\<close>

datatype sqlval = Null | Integer int | Real float64 | Text string

fun stored_as :: "affinity \<Rightarrow> cell \<Rightarrow> sqlval option" where
  "stored_as a NaN = Some Null"
| "stored_as TEXT (Str s) = Some (Text s)"
| "stored_as TEXT (IntV n) = Some (Text (str_int n))"
| "stored_as REAL (IntV n) = Some (Real (float_of_int n))"
| "stored_as REAL (FloatV x) = Some (Real x)"
| "stored_as INTEGER (IntV n) = Some (Integer n)"
| "stored_as BLOB (Str s) = Some (Text s)"
| "stored_as BLOB (IntV n) = Some (Integer n)"
| "stored_as BLOB (FloatV x) = Some (Real x)"
| "stored_as a c = None"

definition date_columns :: "string list" where
  "date_columns = [''order_date'', ''ship_date'']"

definition float_columns :: "string list" where
  "float_columns = [''sales'', ''discount'', ''profit'', ''shipping_cost'']"

definition int_columns :: "string list" where
  "int_columns = [''quantity'', ''year'']"

section \<open>Dates as the specification words them\<close>

text \<open>
  The texts of a date in the form month/day/year: the month and the day with or
  without a leading zero, the day of one digit also with a leading blank (the pattern
  of \<^verbatim>\<open>%d\<close> takes it), and the year in four digits. A date is valid when it is a
  date of the calendar and a \<^verbatim>\<open>datetime64[ns]\<close> can hold it.
\<close>

definition month_texts :: "nat \<Rightarrow> string list" where
  "month_texts m = (if m < 10 then [[digit_char m], pad2 m] else [pad2 m])"

definition day_texts :: "nat \<Rightarrow> string list" where
  "day_texts d = (if d < 10 then [[digit_char d], pad2 d, [CHR '' '', digit_char d]] else [pad2 d])"

definition mdy_texts :: "nat \<Rightarrow> nat \<Rightarrow> nat \<Rightarrow> string list" where
  "mdy_texts y m d =
     concat (map (\<lambda>mm. map (\<lambda>dd. mm @ ''/'' @ dd @ ''/'' @ pad4 y) (day_texts d)) (month_texts m))"

definition valid_date :: "nat \<Rightarrow> nat \<Rightarrow> nat \<Rightarrow> bool" where
  "valid_date y m d = (date_ok y m d \<and> in_ns_bounds y m d)"

definition iso_date :: "nat \<Rightarrow> nat \<Rightarrow> nat \<Rightarrow> string" where
  "iso_date y m d = pad4 y @ ''-'' @ pad2 m @ ''-'' @ pad2 d"

section \<open>A small run\<close>

text \<open>
  Two data rows under the 21 columns of the schema, as \<^verbatim>\<open>pd.read_csv\<close> returns them:
  \<^verbatim>\<open>order_id\<close> and \<^verbatim>\<open>year\<close> are int64 columns, \<^verbatim>\<open>sales\<close> and \<^verbatim>\<open>discount\<close> are
  float64 columns, \<^verbatim>\<open>quantity\<close> holds texts because of its \<^verbatim>\<open>abc\<close>. The second frame
  has one column more, the third has that column and no data row.
\<close>

definition example_libs :: libs where
  "example_libs =
     \<lparr>str_to_number = (\<lambda>s. if s = ''3.9'' then Some (Float64 (Finite (Fract 39 10))) else None),
      float_repr = (\<lambda>x. ''?''),
      sql_identifier = (\<lambda>s. s = ''orders'')\<rparr>"

definition example_frame :: dataframe where
  "example_frame =
     [(''order_id'', [IntV 123, IntV 124]),
      (''order_date'', [Str ''3/5/2014'', Str ''2014-03-07'']),
      (''ship_date'', [Str ''03/09/2014'', NaN]),
      (''ship_mode'', [Str ''Air'', NaN]),
      (''customer_name'', [Str ''Ann'', Str ''Bob'']),
      (''segment'', [Str ''Home'', Str ''Home'']),
      (''state'', [Str ''Utah'', Str ''Ohio'']),
      (''country'', [Str ''US'', Str ''US'']),
      (''market'', [Str ''US'', Str ''US'']),
      (''region'', [Str ''West'', Str ''East'']),
      (''product_id'', [Str ''P1'', Str ''P2'']),
      (''category'', [Str ''Tech'', Str ''Tech'']),
      (''sub_category'', [Str ''Phones'', Str ''Phones'']),
      (''product_name'', [Str ''X'', Str ''Y'']),
      (''sales'', [FloatV (Finite (Fract 26196 100)), FloatV (Finite 10)]),
      (''quantity'', [Str ''abc'', Str ''3.9'']),
      (''discount'', [FloatV (Finite 0), NaN]),
      (''profit'', [IntV 62, IntV (- 5)]),
      (''shipping_cost'', [IntV 5, IntV 7]),
      (''order_priority'', [Str ''High'', Str ''Low'']),
      (''year'', [IntV 2014, IntV 2014])]"

definition extra_frame :: dataframe where
  "extra_frame = example_frame @ [(''notes'', [Str ''a'', Str ''b''])]"

definition header_only_frame :: dataframe where
  "header_only_frame = map (\<lambda>(c, xs). (c, [])) extra_frame"

definition example_world :: world where
  "example_world =
     \<lparr>files = (\<lambda>p. if p = ''orders.csv'' then Csv example_frame
                   else if p = ''extra.csv'' then Csv extra_frame
                   else if p = ''header.csv'' then Csv header_only_frame
                   else NoFile),
      dbs = (\<lambda>p. Absent),
      open_connections = [],
      stdout = []\<rparr>"


definition run :: "string \<Rightarrow> world \<Rightarrow> outcome \<times> world" where
  \<comment> \<open>a call with the arguments of the source's own example, on the file named\<close>
  "run csv_file w = csv_to_sqlite example_libs csv_file ''orders.db'' ''orders'' w"




























lemma print_simps [simp]:
  "files (print m w) = files w" "dbs (print m w) = dbs w"
  "open_connections (print m w) = open_connections w" "stdout (print m w) = stdout w @ [m]"
  by (simp_all add: print_def)

lemma close_simps [simp]:
  "files (close w p) = files w" "dbs (close w p) = dbs w"
  "open_connections (close w p) = remove1 p (open_connections w)" "stdout (close w p) = stdout w"
  by (simp_all add: close_def)

lemma table_of_print [simp]: "table_of (print m w) p n = table_of w p n"
  by (simp add: table_of_def)

lemma table_of_close [simp]: "table_of (close w q) p n = table_of w p n"
  by (simp add: table_of_def)









lemma length_frame_rows [simp]: "length (frame_rows df cols) = len df"
  by (simp add: frame_rows_def)











lemma is_Exception_all: "is_Exception e"
  by (cases e) simp_all

lemma csv_to_sqlite_cases:
  "csv_to_sqlite L c p n w =
     (case try_block L c p n w of
        (None, w') \<Rightarrow> (Completed, w')
      | (Some e, w') \<Rightarrow> (Reported e, print (if e = FileNotFoundError then NotFound c else Failed e) w'))"
  by (simp add: csv_to_sqlite_def is_Exception_all split: prod.splits option.splits)



section \<open>The small run, evaluated\<close>




lemma example_files:
  "files example_world ''orders.csv'' = Csv example_frame"
  "files example_world ''extra.csv'' = Csv extra_frame"
  "files example_world ''header.csv'' = Csv header_only_frame"
  "files example_world ''missing.csv'' = NoFile"
  by (simp_all add: example_world_def)



section \<open>The claims\<close>

text \<open>
  C4. When the source path does not exist, \<^verbatim>\<open>pd.read_csv\<close> raises FileNotFoundError at
  line 18, the first handler reports it, and the call ends there: the world after the
  call is the world before it with two more printed lines. No connection was opened, no
  table was created, and what is at the path of the database is what was there before.
\<close>

theorem missing_source_file_touches_no_database:
  assumes "files w csv_file = NoFile"
  shows "csv_to_sqlite L csv_file db_file table_name w =
     (Reported FileNotFoundError, w\<lparr>stdout := stdout w @ [Reading csv_file, NotFound csv_file]\<rparr>)"
  using assms
  by (simp add: csv_to_sqlite_def try_block_def Let_def or_raise_def read_csv_def print_def)

theorem missing_source_file_witness:
  "files example_world ''missing.csv'' = NoFile \<and>
   run ''missing.csv'' example_world =
     (Reported FileNotFoundError,
      example_world\<lparr>stdout := [Reading ''missing.csv'', NotFound ''missing.csv'']\<rparr>)"
  using missing_source_file_touches_no_database
    [of example_world "''missing.csv''" example_libs "''orders.db''" "''orders''"]
  by (simp add: example_files run_def) (simp add: example_world_def)










text \<open>
  C9. Whatever the arguments and whatever is at the two paths, the call returns: either
  the block completes, or FileNotFoundError is reported by the first handler, or any
  other exception is reported by the second handler with the exception in the printed
  line. No exception leaves the function.
\<close>

theorem every_exception_is_handled:
  "\<exists>r w'. csv_to_sqlite L csv_file db_file table_name w = (r, w') \<and>
     (r = Completed \<or>
      (r = Reported FileNotFoundError \<and> last (stdout w') = NotFound csv_file) \<or>
      (\<exists>e. e \<noteq> FileNotFoundError \<and> r = Reported e \<and> last (stdout w') = Failed e))"
proof (cases "try_block L csv_file db_file table_name w")
  case (Pair x v)
  then show ?thesis by (cases x) (auto simp: csv_to_sqlite_cases)
qed

theorem every_exception_is_handled_witness:
  "fst (run ''missing.csv'' example_world) = Reported FileNotFoundError \<and>
   fst (run ''extra.csv'' example_world) = Reported (OperationalError ''notes'') \<and>
   last (stdout (snd (run ''extra.csv'' example_world))) = Failed (OperationalError ''notes'')"
proof -
  have a: "fst (run ''missing.csv'' example_world) = Reported FileNotFoundError" by code_simp
  have b: "fst (run ''extra.csv'' example_world) = Reported (OperationalError ''notes'')" by code_simp
  from every_exception_is_handled[of example_libs "''extra.csv''" "''orders.db''" "''orders''" example_world]
    a b show ?thesis by (auto simp: run_def)
qed




end
